theory Spec2Isabelle
  imports Complex_Main "HOL-Library.Log_Nat" "HOL-Library.Char_ord" "HOL-Library.List_Lexorder"
begin

section \<open>Numbers: finite binary64 values\<close>

text \<open>
  Every score in \<^verbatim>\<open>recommend_from_prompt_tn.ts\<close> is a JavaScript \<^verbatim>\<open>number\<close>, an IEEE-754
  binary64 value. Scores are modelled as \<open>real\<close> numbers that are finite binary64 values, and
  each arithmetic operation of the source is the exact operation followed by rounding to the
  nearest value with a 53-bit significand, ties to even (\<open>fl\<close>). NaN, the infinities, the sign
  of zero and the subnormal range are outside the model: the scores of this program are short
  sums of constants between \<open>-1\<close> and \<open>2\<close> and never get there.
\<close>

definition expo :: "real \<Rightarrow> int" where
  \<comment> \<open>the binary exponent of a positive number: \<open>2 powi expo a \<le> a < 2 powi (expo a + 1)\<close>\<close>
  "expo a = (if 1 \<le> a then bitlen \<lfloor>a\<rfloor> - 1
             else (let c = 1 - bitlen \<lfloor>1 / a\<rfloor> in if 2 powi c \<le> a then c else c - 1))"

definition round_even :: "real \<Rightarrow> int" where
  "round_even m = (let r = \<lfloor>m\<rfloor>; d = m - of_int r in
     if d < 1 / 2 then r else if 1 / 2 < d then r + 1 else if even r then r else r + 1)"

definition fl :: "real \<Rightarrow> real" where
  "fl x = (if x = 0 then 0 else
     (let u = 2 powi (expo \<bar>x\<bar> - 52) in sgn x * of_int (round_even (\<bar>x\<bar> / u)) * u))"

definition lit :: "real \<Rightarrow> real" where
  \<comment> \<open>a decimal literal of the source denotes the nearest binary64 value\<close>
  "lit x = fl x"

definition fadd :: "real \<Rightarrow> real \<Rightarrow> real" where "fadd a b = fl (a + b)"
definition fsub :: "real \<Rightarrow> real \<Rightarrow> real" where "fsub a b = fl (a - b)"
definition fmul :: "real \<Rightarrow> real \<Rightarrow> real" where "fmul a b = fl (a * b)"
definition fdiv :: "real \<Rightarrow> real \<Rightarrow> real" where "fdiv a b = fl (a / b)"

definition clamp01 :: "real \<Rightarrow> real" where
  "clamp01 x = (if x < 0 then 0 else if x > 1 then 1 else x)"


section \<open>Data model\<close>

datatype CategoryMain = Top | Bottom | Shoes | Mono
datatype Gender = Men | Women | Unisex
datatype Colour = Black | White | Grey | Red | Blue | Green | Beige | Brown | Pink | Yellow | Purple
datatype Vibe = Streetwear | Edgy | Minimal | Y2k | Techwear | Sporty | Preppy | Vintage | Chic
datatype Fit = Oversized | Regular | Slim | Cropped
datatype Sport = Football | Basketball | Running | Tennis | Gym | Other | NoSport
datatype EntityType = Brand | Team | Sponsor | Generic

text \<open>
  Optional fields that the source always reads through \<^verbatim>\<open>x || []\<close>, \<^verbatim>\<open>x || ''\<close> or as a
  truth value (\<^verbatim>\<open>teams\<close>, \<^verbatim>\<open>entities\<close>, \<^verbatim>\<open>entityMeta\<close>, \<^verbatim>\<open>name\<close>, \<^verbatim>\<open>name_normalized\<close>,
  \<^verbatim>\<open>isKit\<close>) are modelled by their default when absent. \<^verbatim>\<open>id\<close>, \<^verbatim>\<open>text\<close>, \<^verbatim>\<open>type\<close> and
  \<^verbatim>\<open>weight\<close> are renamed, being names of Isabelle.
\<close>

record EntityMeta =
  ent_text :: string
  ent_weight :: real
  ent_type :: EntityType

record SportMeta =
  sport :: "Sport option"
  teams :: "string list"
  isKit :: bool

record IndexItem =
  item_id :: string
  imagePath :: string
  category :: CategoryMain
  sub :: "string option"
  colours :: "Colour list"
  vibes :: "Vibe list"
  gender :: Gender
  fit :: "Fit option"
  sportMeta :: "SportMeta option"
  name :: string
  name_normalized :: string
  entities :: "string list"
  entityMeta :: "EntityMeta list"

datatype Mode = OutfitMode | SingleMode
datatype OutfitForm = Top_bottom_shoes | Top_bottom | Mono_only | Mono_and_shoes
  | Top_only | Bottom_only | Shoes_only
datatype TargetGender = AnyGender | Target Gender
datatype FitPreference = Mixed | Prefer Fit

text \<open>
  An intent parsed from the oracle's JSON is cast to \<^verbatim>\<open>PromptIntent\<close> unchecked, and \<^verbatim>\<open>main\<close>
  tests \<^verbatim>\<open>outfit_mode\<close> and \<^verbatim>\<open>requested_form\<close> for absence: these two fields are optional in
  the model. The list fields are lists after the sanitisation.
\<close>

record PromptIntent =
  outfit_mode :: "Mode option"
  requested_form :: "OutfitForm option"
  required_categories :: "CategoryMain list"
  optional_categories :: "CategoryMain list"
  target_gender :: TargetGender
  vibe_tags :: "Vibe list"
  colour_hints :: "Colour list"
  brand_focus :: "string list"
  team_focus :: "string list"
  sport_context :: Sport
  fit_preference :: "FitPreference option"
  specific_items :: "string list"

record ContextWeights =
  wColour :: "Colour \<Rightarrow> real"
  wVibe :: "Vibe \<Rightarrow> real"
  wFit :: "Fit \<Rightarrow> real"
  wSport :: "Sport \<Rightarrow> real"
  brandTokens :: "string list"
  teamTokens :: "string list"
  sportContext :: Sport
  specificTokens :: "string list"

definition ALLOWED_colours :: "Colour list" where
  "ALLOWED_colours = [Black, White, Grey, Red, Blue, Green, Beige, Brown, Pink, Yellow, Purple]"


section \<open>Pairwise compatibility\<close>

definition itemFit :: "IndexItem \<Rightarrow> Fit" where
  \<comment> \<open>\<^verbatim>\<open>(item.fit || 'regular')\<close>\<close>
  "itemFit it = (case fit it of None \<Rightarrow> Regular | Some f \<Rightarrow> f)"

definition pairFitCompatibility :: "IndexItem \<Rightarrow> IndexItem \<Rightarrow> real" where
  "pairFitCompatibility topItem bottomItem =
     (let ft = itemFit topItem; fb = itemFit bottomItem in
      if ft = Oversized \<and> fb = Slim then lit (13 / 10)
      else if ft = Oversized \<and> fb = Regular then 1
      else if ft = Regular \<and> fb = Slim then 1
      else if ft = Slim \<and> fb = Slim then lit (9 / 10)
      else if ft = Oversized \<and> fb = Oversized then lit (4 / 10)
      else lit (5 / 10))"


section \<open>Text helpers\<close>

text \<open>
  Strings are modelled as ASCII text. On ASCII, \<^verbatim>\<open>toLowerCase\<close> maps \<open>A\<close>-\<open>Z\<close> to \<open>a\<close>-\<open>z\<close>,
  \<^verbatim>\<open>normalize('NFD')\<close> is the identity and there is no combining mark to strip, which leaves
  the three replacements and the trim of \<^verbatim>\<open>normalizeText\<close>. A character outside ASCII is
  treated like punctuation (it becomes a space).
\<close>

definition toLowerAscii :: "char \<Rightarrow> char" where
  \<comment> \<open>an upper-case letter plus 32: the bit \<open>0x20\<close> is set\<close>
  "toLowerAscii c =
     (if CHR ''A'' \<le> c \<and> c \<le> CHR ''Z''
      then (case c of Char b0 b1 b2 b3 b4 b5 b6 b7 \<Rightarrow> Char b0 b1 b2 b3 b4 True b6 b7)
      else c)"

definition isAlnum :: "char \<Rightarrow> bool" where
  "isAlnum c = ((CHR ''a'' \<le> c \<and> c \<le> CHR ''z'') \<or> (CHR ''0'' \<le> c \<and> c \<le> CHR ''9''))"

definition isSpace :: "char \<Rightarrow> bool" where
  "isSpace c = (c \<in> set [CHR 0x09, CHR 0x0A, CHR 0x0B, CHR 0x0C, CHR 0x0D, CHR '' ''])"

function collapseSpaces :: "string \<Rightarrow> string" where
  "collapseSpaces [] = []"
| "collapseSpaces (c # cs) =
     (if isSpace c then CHR '' '' # collapseSpaces (dropWhile isSpace cs)
      else c # collapseSpaces cs)"
  by pat_completeness auto
termination
  by (relation "measure length") (auto simp: le_imp_less_Suc length_dropWhile_le)

definition trim :: "string \<Rightarrow> string" where
  "trim s = rev (dropWhile isSpace (rev (dropWhile isSpace s)))"

definition normalizeText :: "string \<Rightarrow> string" where
  "normalizeText s =
     trim (collapseSpaces
       (map (\<lambda>c. if isAlnum c \<or> isSpace c then c else CHR '' '') (map toLowerAscii s)))"

fun strIncludes :: "string \<Rightarrow> string \<Rightarrow> bool" where
  \<comment> \<open>\<^verbatim>\<open>hay.includes(t)\<close>\<close>
  "strIncludes [] t = (t = [])"
| "strIncludes (c # cs) t = (take (length t) (c # cs) = t \<or> strIncludes cs t)"

fun joinWith :: "string \<Rightarrow> string list \<Rightarrow> string" where
  "joinWith sep [] = []"
| "joinWith sep [x] = x"
| "joinWith sep (x # y # ys) = x @ sep @ joinWith sep (y # ys)"

fun splitOn :: "char \<Rightarrow> string \<Rightarrow> string list" where
  "splitOn d [] = [[]]"
| "splitOn d (c # cs) =
     (if c = d then [] # splitOn d cs
      else (case splitOn d cs of w # ws \<Rightarrow> (c # w) # ws | [] \<Rightarrow> [[c]]))"

section \<open>Weight construction\<close>

definition addToken :: "string list \<Rightarrow> string \<Rightarrow> string list" where
  \<comment> \<open>\<^verbatim>\<open>if (w) specificTokensSet.add(w)\<close>, the set kept in insertion order\<close>
  "addToken acc w = (if w = [] \<or> w \<in> set acc then acc else acc @ [w])"

definition specificTokensOf :: "string list \<Rightarrow> string list" where
  "specificTokensOf raws =
     fold (\<lambda>raw acc. let norm = normalizeText raw in
             if norm = [] then acc else fold (\<lambda>w a. addToken a w) (splitOn CHR '' '' norm) acc)
          raws []"

definition buildWeights :: "PromptIntent \<Rightarrow> ContextWeights" where
  "buildWeights intent =
    (let wColour0 = fold (\<lambda>c w. w(c := fadd (w c) 1)) (colour_hints intent) (\<lambda>c. 0);
         wColour1 =
           (if colour_hints intent = [] then
              wColour0(Black := fadd (wColour0 Black) (lit (3 / 10)),
                       White := fadd (wColour0 White) (lit (3 / 10)),
                       Grey := fadd (wColour0 Grey) (lit (3 / 10)),
                       Beige := fadd (wColour0 Beige) (lit (2 / 10)))
            else wColour0);
         wVibe1 = fold (\<lambda>v w. w(v := fadd (w v) 1)) (vibe_tags intent) (\<lambda>v. 0);
         wFit0 = (\<lambda>f. case f of Oversized \<Rightarrow> lit (2 / 10) | Regular \<Rightarrow> lit (4 / 10)
                    | Slim \<Rightarrow> lit (2 / 10) | Cropped \<Rightarrow> lit (2 / 10));
         wFit1 =
           (case fit_preference intent of
              Some (Prefer f) \<Rightarrow> (\<lambda>g. lit (1 / 10))(f := 1)
            | _ \<Rightarrow> wFit0(Oversized := fadd (wFit0 Oversized) (lit (2 / 10)),
                        Slim := fadd (wFit0 Slim) (lit (2 / 10)),
                        Regular := fadd (wFit0 Regular) (lit (5 / 10))));
         wSport1 =
           (if sport_context intent \<noteq> NoSport then (\<lambda>s. 0)(sport_context intent := 1)
            else (\<lambda>s. 0))
     in \<lparr> wColour = wColour1, wVibe = wVibe1, wFit = wFit1, wSport = wSport1,
          brandTokens = map normalizeText (brand_focus intent),
          teamTokens = map normalizeText (team_focus intent),
          sportContext = sport_context intent,
          specificTokens = specificTokensOf (specific_items intent) \<rparr>)"

section \<open>Single item scoring\<close>

definition neutrals :: "Colour list" where
  "neutrals = [Black, White, Grey, Beige, Brown]"

definition colourAlignment :: "IndexItem \<Rightarrow> (Colour \<Rightarrow> real) \<Rightarrow> real" where
  "colourAlignment item wc =
    (if colours item = [] then 0
     else
       (let best = fold (\<lambda>c b. max b (wc c)) (colours item) 0;
            totalPref = fold (\<lambda>b a. fadd a b) (map wc ALLOWED_colours) 0;
            hasMatch = (\<exists>c \<in> set (colours item). wc c > 0);
            best1 = (if totalPref > 0 \<and> \<not> hasMatch then fsub best (lit (5 / 10)) else best);
            hasNeutral = (\<exists>c \<in> set (colours item). c \<in> set neutrals)
        in if hasNeutral then
             (let neutralWeight = fold max (map wc (tl neutrals)) (wc (hd neutrals))
              in fadd best1 (fmul (lit (2 / 10)) neutralWeight))
           else best1))"



definition entityText :: "IndexItem \<Rightarrow> string" where
  \<comment> \<open>\<^verbatim>\<open>normalizeText((item.entityMeta || []).map((e) => e.text).join(' '))\<close>\<close>
  "entityText item = normalizeText (joinWith '' '' (map ent_text (entityMeta item)))"


definition itemSport :: "IndexItem \<Rightarrow> Sport" where
  \<comment> \<open>\<^verbatim>\<open>(item.sportMeta?.sport || 'none')\<close>\<close>
  "itemSport it =
     (case sportMeta it of None \<Rightarrow> NoSport
      | Some sm \<Rightarrow> (case sport sm of None \<Rightarrow> NoSport | Some s \<Rightarrow> s))"


definition itemTeams :: "IndexItem \<Rightarrow> string list" where
  \<comment> \<open>\<^verbatim>\<open>(item.sportMeta?.teams || []).map(normalizeText)\<close>\<close>
  "itemTeams it = (case sportMeta it of None \<Rightarrow> [] | Some sm \<Rightarrow> map normalizeText (teams sm))"


definition specificText :: "IndexItem \<Rightarrow> string" where
  "specificText item =
     normalizeText (name item) @ '' '' @ normalizeText (name_normalized item) @ '' '' @
     normalizeText (imagePath item) @ '' '' @ entityText item"


definition countSpecificMatches :: "IndexItem \<Rightarrow> string list \<Rightarrow> nat" where
  "countSpecificMatches item sts =
    (if sts = [] then 0
     else (let txt = specificText item
           in fold (\<lambda>t count. if t = [] then count
                               else if strIncludes txt t then count + 1 else count) sts 0))"

definition genericTeamText :: "IndexItem \<Rightarrow> string" where
  "genericTeamText item =
     normalizeText (name item) @ '' '' @ normalizeText (name_normalized item) @ '' '' @
     normalizeText (imagePath item) @ '' '' @
     normalizeText (joinWith '' '' (entities item)) @ '' '' @ entityText item"

definition entityTeams :: "IndexItem \<Rightarrow> string list" where
  "entityTeams item =
     map (\<lambda>e. normalizeText (ent_text e)) (filter (\<lambda>e. ent_type e = Team) (entityMeta item))"

definition fuzzyIn :: "string list \<Rightarrow> string \<Rightarrow> bool" where
  \<comment> \<open>\<^verbatim>\<open>xs.some((x) => x && (x.includes(t) || t.includes(x)))\<close>\<close>
  "fuzzyIn xs t = (\<exists>x \<in> set xs. x \<noteq> [] \<and> (strIncludes x t \<or> strIncludes t x))"




section \<open>Pairwise factors and outfit score\<close>

definition pairColorStep :: "Colour \<Rightarrow> Colour \<Rightarrow> real \<Rightarrow> real" where
  \<comment> \<open>the body of the inner loop: \<^verbatim>\<open>score\<close> after the colours \<open>ca\<close> and \<open>cb\<close> are compared\<close>
  "pairColorStep ca cb score =
    (if ca = cb then fadd score 1
     else (let isNeutralA = (ca \<in> set neutrals); isNeutralB = (cb \<in> set neutrals)
           in if isNeutralA \<and> isNeutralB then fadd score (lit (6 / 10))
              else if isNeutralA \<or> isNeutralB then fadd score (lit (4 / 10))
              else score))"

definition pairColorCompatibility :: "IndexItem \<Rightarrow> IndexItem \<Rightarrow> real" where
  "pairColorCompatibility a b =
    (if colours a = [] \<or> colours b = [] then 0
     else
       fdiv
         (fold (\<lambda>ca score. fold (\<lambda>cb score. pairColorStep ca cb score) (colours b) score)
            (colours a) 0)
         (fmul (of_nat (length (colours a))) (of_nat (length (colours b)))))"

definition uniqFirst :: "'a list \<Rightarrow> 'a list" where
  \<comment> \<open>\<^verbatim>\<open>Array.from(new Set(xs))\<close>: the first occurrence of each element, in order\<close>
  "uniqFirst xs = fold (\<lambda>x acc. if x \<in> set acc then acc else acc @ [x]) xs []"




record Outfit =
  o_top :: "IndexItem option"
  o_bottom :: "IndexItem option"
  o_shoes :: "IndexItem option"
  o_mono :: "IndexItem option"

definition outfitItems :: "Outfit \<Rightarrow> IndexItem list" where
  \<comment> \<open>the items present, in the key order \<^verbatim>\<open>['top', 'bottom', 'shoes', 'mono']\<close>\<close>
  "outfitItems outfit =
     concat (map (\<lambda>x. case x of None \<Rightarrow> [] | Some it \<Rightarrow> [it])
       [o_top outfit, o_bottom outfit, o_shoes outfit, o_mono outfit])"




section \<open>Candidate filtering\<close>

definition genderCompatible :: "Gender \<Rightarrow> TargetGender \<Rightarrow> bool" where
  "genderCompatible itemGender target =
     (case target of AnyGender \<Rightarrow> True
      | Target g \<Rightarrow> if itemGender = Unisex then True else itemGender = g)"

definition hasBrandMatch :: "IndexItem \<Rightarrow> string list \<Rightarrow> bool" where
  "hasBrandMatch item bts =
    (if bts = [] then False
     else (let txt = normalizeText (name item) @ '' '' @ normalizeText (name_normalized item)
                       @ '' '' @ entityText item
           in \<exists>b \<in> set bts. b \<noteq> [] \<and> strIncludes txt b))"

definition hasTeamMatch :: "IndexItem \<Rightarrow> string list \<Rightarrow> bool" where
  "hasTeamMatch item tts =
    (if tts = [] then False
     else (let allTeams = itemTeams item @ entityTeams item; txt = genericTeamText item
           in \<exists>t \<in> set tts. t \<noteq> [] \<and> (fuzzyIn allTeams t \<or> strIncludes txt t)))"

definition isSportRelevantForContext :: "IndexItem \<Rightarrow> Sport \<Rightarrow> string list \<Rightarrow> bool" where
  "isSportRelevantForContext item ctx tts =
    (if ctx = NoSport then False
     else if itemSport item = ctx then True
     else if hasTeamMatch item tts then True
     else False)"

record Stage =
  requireBrand :: bool
  requireTeam :: bool
  requireSportStrong :: bool

definition stages :: "Stage list" where
  "stages =
    [\<lparr> requireBrand = True, requireTeam = True, requireSportStrong = True \<rparr>,
     \<lparr> requireBrand = False, requireTeam = True, requireSportStrong = True \<rparr>,
     \<lparr> requireBrand = False, requireTeam = False, requireSportStrong = True \<rparr>,
     \<lparr> requireBrand = False, requireTeam = False, requireSportStrong = False \<rparr>]"

definition roleBase :: "IndexItem list \<Rightarrow> CategoryMain \<Rightarrow> PromptIntent \<Rightarrow> ContextWeights
    \<Rightarrow> IndexItem list" where
  \<comment> \<open>the variable \<^verbatim>\<open>base\<close> when the loop over the stages starts\<close>
  "roleBase items cat intent w =
    (let base = filter (\<lambda>it. category it = cat) items in
     if sport_context intent \<noteq> NoSport then
       (let sporty = filter (\<lambda>it.
                 isSportRelevantForContext it (sport_context intent) (teamTokens w)) base
        in if sporty \<noteq> [] then sporty else base)
     else base)"

definition stageConstraints :: "Stage \<Rightarrow> IndexItem list \<Rightarrow> PromptIntent \<Rightarrow> ContextWeights
    \<Rightarrow> IndexItem list" where
  \<comment> \<open>the loop body down to the team filter: \<^verbatim>\<open>pool\<close> before the specific-item step\<close>
  "stageConstraints stage base intent w =
    (let pool0 = filter (\<lambda>it. genderCompatible (gender it) (target_gender intent)) base;
         pool1 =
           (if requireSportStrong stage then
              (if sport_context intent \<noteq> NoSport then
                 filter (\<lambda>it. isSportRelevantForContext it (sport_context intent) (teamTokens w))
                   pool0
               else
                 (let nonSport = filter (\<lambda>it. itemSport it = NoSport) pool0
                  in if nonSport \<noteq> [] then nonSport else pool0))
            else pool0);
         pool2 =
           (if requireBrand stage \<and> brandTokens w \<noteq> []
            then filter (\<lambda>it. hasBrandMatch it (brandTokens w)) pool1 else pool1)
     in if requireTeam stage \<and> teamTokens w \<noteq> []
        then filter (\<lambda>it. hasTeamMatch it (teamTokens w)) pool2 else pool2)"

definition preferSpecific :: "IndexItem list \<Rightarrow> ContextWeights \<Rightarrow> IndexItem list" where
  \<comment> \<open>the specific-item step of the loop body; \<^verbatim>\<open>Math.max\<close> of a non-empty list of counts\<close>
  "preferSpecific pool w =
    (if specificTokens w \<noteq> [] \<and> pool \<noteq> [] then
       (let counted = map (\<lambda>it. (it, countSpecificMatches it (specificTokens w))) pool;
            maxMatches = fold max (map snd counted) 0
        in if maxMatches > 0 then map fst (filter (\<lambda>c. snd c = maxMatches) counted) else pool)
     else pool)"

definition stagePool :: "Stage \<Rightarrow> IndexItem list \<Rightarrow> PromptIntent \<Rightarrow> ContextWeights
    \<Rightarrow> IndexItem list" where
  \<comment> \<open>\<^verbatim>\<open>pool\<close> at the test \<^verbatim>\<open>if (pool.length) return pool\<close>\<close>
  "stagePool stage base intent w = preferSpecific (stageConstraints stage base intent w) w"

fun tryStages :: "Stage list \<Rightarrow> IndexItem list \<Rightarrow> PromptIntent \<Rightarrow> ContextWeights
    \<Rightarrow> IndexItem list" where
  "tryStages [] base intent w = base"
| "tryStages (stage # rest) base intent w =
    (let pool = stagePool stage base intent w
     in if pool \<noteq> [] then pool else tryStages rest base intent w)"

definition filterCandidatesForRole :: "IndexItem list \<Rightarrow> CategoryMain \<Rightarrow> PromptIntent
    \<Rightarrow> ContextWeights \<Rightarrow> IndexItem list" where
  "filterCandidatesForRole items cat intent w =
     tryStages stages (roleBase items cat intent w) intent w"


section \<open>Intent resolution\<close>

definition guessIntentHeuristic :: "string \<Rightarrow> TargetGender \<Rightarrow> PromptIntent" where
  "guessIntentHeuristic prompt genderPref =
    (let p = normalizeText prompt;
         has = (\<lambda>ks. \<exists>k \<in> set ks. strIncludes p k);
         outfitMode =
           (if has [''fit'', ''outfit'', ''look''] \<or> has [''top and bottom'', ''top bottom'']
            then OutfitMode else SingleMode);
         form =
           (if outfitMode = SingleMode then
              (if has [''shoes'', ''boots'', ''sneakers'', ''trainers''] then Shoes_only
               else if has [''pants'', ''jeans'', ''trousers'', ''bottom''] then Bottom_only
               else Top_only)
            else if has [''dress'', ''gown'', ''slip dress''] then Mono_only
            else Top_bottom_shoes);
         cats =
           (case form of
              Top_bottom_shoes \<Rightarrow> [Top, Bottom, Shoes]
            | Mono_only \<Rightarrow> [Mono]
            | Top_only \<Rightarrow> [Top]
            | Bottom_only \<Rightarrow> [Bottom]
            | Shoes_only \<Rightarrow> [Shoes]
            | Mono_and_shoes \<Rightarrow> [Mono, Shoes]
            | Top_bottom \<Rightarrow> []);
         sportCtx =
           (if has [''football'', ''soccer'', ''kit'', ''matchday''] then Football
            else if has [''basketball'', ''nba''] then Basketball
            else if has [''gym'', ''workout'', ''training''] then Gym
            else if has [''running'', ''runner''] then Running
            else if has [''tennis''] then Tennis
            else NoSport);
         vibeTags =
           (if has [''streetwear'', ''street'', ''trap'', ''hoodie'', ''cargo'', ''graphic'', ''hype'']
            then [Streetwear] else []) @
           (if has [''grunge'', ''goth'', ''rock'', ''punk'', ''dark'', ''leather''] then [Edgy] else []) @
           (if has [''minimal'', ''clean'', ''basic'', ''essentials'', ''capsule'', ''neutral'']
            then [Minimal] else []) @
           (if has [''y2k'', ''2000''] then [Y2k] else []) @
           (if has [''preppy'', ''college'', ''ivy'', ''varsity'', ''polo''] then [Preppy] else []) @
           (if has [''vintage'', ''retro'', ''oldschool''] then [Vintage] else []) @
           (if has [''chic'', ''elegant'', ''slip dress'', ''silk'', ''satin''] then [Chic] else []) @
           (if sportCtx \<noteq> NoSport then [Sporty] else []);
         fitPref =
           (if has [''baggy'', ''oversized'', ''huge'', ''boxy''] then Prefer Oversized
            else if has [''skinny'', ''tight'', ''slim''] then Prefer Slim
            else if has [''cropped''] then Prefer Cropped
            else Mixed)
     in \<lparr> outfit_mode = Some outfitMode, requested_form = Some form,
          required_categories = cats, optional_categories = [],
          target_gender = genderPref,
          vibe_tags = take 3 (uniqFirst vibeTags), colour_hints = [],
          brand_focus = [], team_focus = [], sport_context = sportCtx,
          fit_preference = Some fitPref, specific_items = [] \<rparr>)"

definition mergeIntent :: "PromptIntent option \<Rightarrow> PromptIntent \<Rightarrow> PromptIntent" where
  \<comment> \<open>lines 1124 to 1148 of \<^verbatim>\<open>main\<close>: the oracle's intent (\<open>None\<close> when it gave none)
      repaired from the heuristic intent\<close>
  "mergeIntent gemini heuristicIntent =
    (let intent = (case gemini of None \<Rightarrow> heuristicIntent | Some g \<Rightarrow> g) in
     if required_categories intent = [] then
       intent\<lparr> required_categories := required_categories heuristicIntent,
               requested_form :=
                 (if requested_form intent = None then requested_form heuristicIntent
                  else requested_form intent),
               outfit_mode :=
                 (if outfit_mode intent = None then outfit_mode heuristicIntent
                  else outfit_mode intent) \<rparr>
     else
       (let gemCats = uniqFirst (required_categories intent);
            heurCats = uniqFirst (required_categories heuristicIntent);
            gemIsOutfit = (outfit_mode intent = Some OutfitMode);
            heurIsOutfit = (outfit_mode heuristicIntent = Some OutfitMode)
        in if gemIsOutfit \<and> heurIsOutfit \<and> length gemCats < length heurCats
           then intent\<lparr> required_categories := required_categories heuristicIntent,
                         requested_form := requested_form heuristicIntent \<rparr>
           else intent))"


section \<open>Assembly, ranking and diversity sampling\<close>


record Scored =
  outfit :: Outfit
  score :: real




definition sortByScore :: "Scored list \<Rightarrow> Scored list" where
  "sortByScore xs = sort_key (\<lambda>c. - score c) xs"





fun walkScores :: "real \<Rightarrow> nat \<Rightarrow> real list \<Rightarrow> nat option" where
  \<comment> \<open>the \<^verbatim>\<open>for\<close> loop of \<^verbatim>\<open>choiceWeighted\<close>, from index \<open>i\<close>\<close>
  "walkScores r i [] = None"
| "walkScores r i (s # ss) =
     (let r' = fsub r s in if r' \<le> 0 then Some i else walkScores r' (Suc i) ss)"

definition choiceWeighted :: "(nat \<Rightarrow> real) \<Rightarrow> nat \<Rightarrow> nat \<Rightarrow> real list \<Rightarrow> nat option \<times> nat" where
  \<comment> \<open>the index of the chosen one of \<open>n\<close> items (\<open>None\<close> for \<^verbatim>\<open>null\<close>), and the position
      in the random stream afterwards\<close>
  "choiceWeighted rnd pos n scores =
    (let total = fold (\<lambda>b a. fadd a b) scores 0 in
     if n = 0 \<or> total \<le> 0 then (None, pos)
     else (case walkScores (fmul (rnd pos) total) 0 (take n scores) of
             Some i \<Rightarrow> (Some i, Suc pos)
           | None \<Rightarrow> (Some (n - 1), Suc pos)))"

definition signature :: "Outfit \<Rightarrow> string" where
  \<comment> \<open>\<^verbatim>\<open>ids.sort().join('|')\<close>\<close>
  "signature ou = joinWith ''|'' (sort (map item_id (outfitItems ou)))"

definition drawPick :: "(nat \<Rightarrow> real) \<Rightarrow> nat \<Rightarrow> real \<Rightarrow> Scored list \<Rightarrow> nat \<times> nat" where
  \<comment> \<open>the index of \<^verbatim>\<open>pick\<close> in a non-empty \<^verbatim>\<open>topBand\<close>, and the position in the random
      stream afterwards\<close>
  "drawPick rnd pos eps topBand =
    (if rnd pos < eps then
       (let minScore = score (last topBand);
            scores = map (\<lambda>c. max (lit (1 / 10000))
                               (fadd (fsub (score c) minScore) (lit (1 / 1000)))) topBand
        in (case choiceWeighted rnd (Suc pos) (length topBand) scores of
              (Some i, pos') \<Rightarrow> (i, pos')
            | (None, pos') \<Rightarrow> (0, pos')))
     else (0, Suc pos))"

definition removeAt :: "nat \<Rightarrow> 'a list \<Rightarrow> 'a list" where
  \<comment> \<open>\<^verbatim>\<open>topBand.splice(idx, 1)\<close>\<close>
  "removeAt idx xs = take idx xs @ drop (Suc idx) xs"

lemma walkScores_less: "walkScores r i ss = Some k \<Longrightarrow> k < i + length ss"
  by (induction ss arbitrary: r i) (fastforce simp: Let_def split: if_splits)+

lemma drawPick_less: "topBand \<noteq> [] \<Longrightarrow> fst (drawPick rnd pos eps topBand) < length topBand"
  by (auto simp: drawPick_def choiceWeighted_def Let_def
      split: option.splits if_splits prod.splits dest!: walkScores_less)

function sampleLoop :: "(nat \<Rightarrow> real) \<Rightarrow> nat \<Rightarrow> real \<Rightarrow> nat \<Rightarrow> Scored list \<Rightarrow> Scored list
    \<Rightarrow> string set \<Rightarrow> Scored list" where
  "sampleLoop rnd pos eps poolSize topBand chosen usedIds =
    (if length chosen < poolSize \<and> topBand \<noteq> [] then
       (let idx = fst (drawPick rnd pos eps topBand);
            pick = topBand ! idx;
            sig = signature (outfit pick)
        in sampleLoop rnd (snd (drawPick rnd pos eps topBand)) eps poolSize
             (removeAt idx topBand)
             (if sig \<notin> usedIds then chosen @ [pick] else chosen)
             (if sig \<notin> usedIds then insert sig usedIds else usedIds))
     else chosen)"
  by pat_completeness auto
termination
proof (relation "measure (\<lambda>(rnd, pos, eps, poolSize, topBand, chosen, usedIds). length topBand)")
  show "wf (measure (\<lambda>(rnd, pos, eps, poolSize, topBand, chosen, usedIds). length topBand))"
    by simp
next
  fix rnd :: "nat \<Rightarrow> real" and pos :: nat and eps :: real and poolSize :: nat
    and topBand chosen :: "Scored list" and usedIds :: "string set" and idx pick sig
  assume "length chosen < poolSize \<and> topBand \<noteq> []"
    and "idx = fst (drawPick rnd pos eps topBand)"
  then have "idx < length topBand"
    by (simp add: drawPick_less)
  then show "((rnd, snd (drawPick rnd pos eps topBand), eps, poolSize, removeAt idx topBand,
               if sig \<notin> usedIds then chosen @ [pick] else chosen,
               if sig \<notin> usedIds then insert sig usedIds else usedIds),
              rnd, pos, eps, poolSize, topBand, chosen, usedIds)
             \<in> measure (\<lambda>(rnd, pos, eps, poolSize, topBand, chosen, usedIds). length topBand)"
    by (simp add: removeAt_def)
qed

declare sampleLoop.simps [simp del]

definition topBandOf :: "nat \<Rightarrow> Scored list \<Rightarrow> Scored list" where
  \<comment> \<open>\<^verbatim>\<open>outfits.sort(...)\<close> and \<^verbatim>\<open>outfits.slice(0, Math.max(poolSize * 3, poolSize))\<close>\<close>
  "topBandOf poolSize outfits = take (max (poolSize * 3) poolSize) (sortByScore outfits)"






section \<open>Sample catalogs and intents\<close>

definition plainItem :: "string \<Rightarrow> CategoryMain \<Rightarrow> IndexItem" where
  "plainItem i cat =
     \<lparr> item_id = i, imagePath = i @ ''.jpg'', category = cat, sub = None, colours = [Black],
       vibes = [], gender = Men, fit = None, sportMeta = None, name = [],
       name_normalized = [], entities = [], entityMeta = [] \<rparr>"

definition plainIntent :: "CategoryMain list \<Rightarrow> PromptIntent" where
  "plainIntent cats =
     \<lparr> outfit_mode = Some SingleMode, requested_form = Some Top_only,
       required_categories = cats, optional_categories = [], target_gender = AnyGender,
       vibe_tags = [], colour_hints = [], brand_focus = [], team_focus = [],
       sport_context = NoSport, fit_preference = None, specific_items = [] \<rparr>"

definition footballTop :: IndexItem where
  "footballTop = (plainItem ''jersey'' Top)
     \<lparr> sportMeta := Some \<lparr> sport = Some Football, teams = [], isKit = True \<rparr> \<rparr>"

definition womenFootballIntent :: PromptIntent where
  "womenFootballIntent = (plainIntent [Top])
     \<lparr> target_gender := Target Women, sport_context := Football \<rparr>"

definition nikeBoots :: IndexItem where
  "nikeBoots = (plainItem ''s1'' Shoes) \<lparr> name := ''Nike boots'' \<rparr>"

definition timberlandBoots :: IndexItem where
  "timberlandBoots = (plainItem ''s2'' Shoes) \<lparr> name := ''Timberland boots'' \<rparr>"

definition bootsIntent :: PromptIntent where
  "bootsIntent = (plainIntent [Shoes])
     \<lparr> brand_focus := [''nike''], specific_items := [''timberland boots''] \<rparr>"


definition plainTee :: IndexItem where
  "plainTee = plainItem ''tee'' Top"

definition redTop :: IndexItem where
  "redTop = (plainItem ''red'' Top) \<lparr> colours := [Red] \<rparr>"

definition blackRedTop :: IndexItem where
  "blackRedTop = (plainItem ''t1'' Top) \<lparr> colours := [Black, Red] \<rparr>"

definition redBlueBottom :: IndexItem where
  "redBlueBottom = (plainItem ''b1'' Bottom) \<lparr> colours := [Red, Blue] \<rparr>"

definition oracleNoCats :: PromptIntent where
  \<comment> \<open>an oracle answer with a form and a mode but no categories\<close>
  "oracleNoCats = (plainIntent [])
     \<lparr> outfit_mode := Some OutfitMode, requested_form := Some Mono_only \<rparr>"

definition oracleBare :: PromptIntent where
  \<comment> \<open>an oracle answer without categories, form and mode\<close>
  "oracleBare = (plainIntent []) \<lparr> outfit_mode := None, requested_form := None \<rparr>"

definition fallbackOutfit :: PromptIntent where
  "fallbackOutfit = (plainIntent [Top, Bottom, Shoes])
     \<lparr> outfit_mode := Some OutfitMode, requested_form := Some Top_bottom_shoes \<rparr>"

section \<open>Evaluation of binary64 arithmetic and of text\<close>

lemma bitlen_numeral:
  "bitlen 1 = 1"
  "bitlen (numeral (Num.Bit0 k)) = bitlen (numeral k) + 1"
  "bitlen (numeral (Num.Bit1 k)) = bitlen (numeral k) + 1"
  by (subst compute_bitlen, simp)+

lemmas fl_eval = fl_def expo_def round_even_def fadd_def fsub_def fmul_def fdiv_def lit_def
  bitlen_numeral

lemmas text_eval = normalizeText_def trim_def isSpace_def isAlnum_def toLowerAscii_def
  entityText_def specificText_def genericTeamText_def

lemma lit_values:
  "lit (13 / 10) = 5854679515581645 / 4503599627370496"
  "lit (1 / 2) = 1 / 2"
  "lit (4 / 5) = 3602879701896397 / 4503599627370496"
  "lit (3 / 10) = 5404319552844595 / 18014398509481984"
  "lit (1 / 5) = 3602879701896397 / 18014398509481984"
  "lit (2 / 5) = 3602879701896397 / 9007199254740992"
  "lit (3 / 5) = 5404319552844595 / 9007199254740992"
  by (simp_all add: fl_eval)

section \<open>Candidate selection\<close>

lemma tryStages_nonempty: "base \<noteq> [] \<Longrightarrow> tryStages ss base intent w \<noteq> []"
  by (induction ss) (auto simp: Let_def)

lemma roleBase_nonempty:
  "\<exists>it \<in> set items. category it = cat \<Longrightarrow> roleBase items cat intent w \<noteq> []"
  by (auto simp: roleBase_def Let_def filter_empty_conv)

text \<open>
  Claim C1. If the catalog holds at least one item whose category is the role, then
  \<open>filterCandidatesForRole\<close> returns a non-empty list for that role, whatever the intent and
  the weights.
\<close>

theorem filterCandidates_nonempty:
  assumes "\<exists>it \<in> set items. category it = cat"
  shows "filterCandidatesForRole items cat intent w \<noteq> []"
  unfolding filterCandidatesForRole_def
  by (rule tryStages_nonempty) (rule roleBase_nonempty [OF assms])

theorem filterCandidates_nonempty_witness:
  "(\<exists>it \<in> set [plainItem ''a'' Bottom, plainTee]. category it = Top) \<and>
   filterCandidatesForRole [plainItem ''a'' Bottom, plainTee] Top
     womenFootballIntent (buildWeights womenFootballIntent) \<noteq> []"
proof -
  have h: "\<exists>it \<in> set [plainItem ''a'' Bottom, plainTee]. category it = Top"
    by (simp add: plainItem_def plainTee_def)
  from filterCandidates_nonempty [OF h] h show ?thesis by blast
qed

lemma preferSpecific_subset: "set (preferSpecific pool w) \<subseteq> set pool"
  by (auto simp: preferSpecific_def Let_def)

lemma preferSpecific_no_tokens: "specificTokens w = [] \<Longrightarrow> preferSpecific pool w = pool"
  by (simp add: preferSpecific_def)

lemma stageConstraints_widen:
  assumes "k < 3"
  shows "set (stageConstraints (stages ! k) base intent w)
           \<subseteq> set (stageConstraints (stages ! Suc k) base intent w)"
proof -
  from assms consider "k = 0" | "k = 1" | "k = 2" by linarith
  then show ?thesis
    by cases (auto simp: stages_def stageConstraints_def Let_def)
qed

lemma bootsWeights:
  "brandTokens (buildWeights bootsIntent) = [''nike'']"
  "teamTokens (buildWeights bootsIntent) = []"
  "specificTokens (buildWeights bootsIntent) = [''timberland'', ''boots'']"
  by (simp_all add: buildWeights_def bootsIntent_def plainIntent_def Let_def
      specificTokensOf_def addToken_def text_eval)

lemma bootsBrand:
  "hasBrandMatch nikeBoots [''nike'']" "\<not> hasBrandMatch timberlandBoots [''nike'']"
  by (simp_all add: hasBrandMatch_def nikeBoots_def timberlandBoots_def plainItem_def text_eval)

lemma bootsCount:
  "countSpecificMatches nikeBoots [''timberland'', ''boots''] = 1"
  "countSpecificMatches timberlandBoots [''timberland'', ''boots''] = 2"
  by (simp_all add: countSpecificMatches_def nikeBoots_def timberlandBoots_def plainItem_def
      text_eval)

lemma bootsAttrs:
  "category nikeBoots = Shoes" "category timberlandBoots = Shoes"
  "gender nikeBoots = Men" "gender timberlandBoots = Men"
  "itemSport nikeBoots = NoSport" "itemSport timberlandBoots = NoSport"
  "nikeBoots \<noteq> timberlandBoots"
  "target_gender bootsIntent = AnyGender" "sport_context bootsIntent = NoSport"
  by (simp_all add: nikeBoots_def timberlandBoots_def plainItem_def itemSport_def
      bootsIntent_def plainIntent_def)

lemma bootsBase:
  "roleBase [nikeBoots, timberlandBoots] Shoes bootsIntent w = [nikeBoots, timberlandBoots]"
  by (simp add: roleBase_def bootsAttrs)

lemma bootsStages:
  "stagePool (stages ! 0) [nikeBoots, timberlandBoots] bootsIntent (buildWeights bootsIntent)
     = [nikeBoots]"
  "stagePool (stages ! Suc 0) [nikeBoots, timberlandBoots] bootsIntent (buildWeights bootsIntent)
     = [timberlandBoots]"
  "stageConstraints (stages ! 0) [nikeBoots, timberlandBoots] bootsIntent
     (buildWeights bootsIntent) = [nikeBoots]"
  "stageConstraints (stages ! Suc 0) [nikeBoots, timberlandBoots] bootsIntent
     (buildWeights bootsIntent) = [nikeBoots, timberlandBoots]"
  by (simp_all add: stagePool_def stageConstraints_def preferSpecific_def stages_def
      bootsWeights bootsBrand bootsCount bootsAttrs genderCompatible_def Let_def)

text \<open>
  Claim C6, as stated, fails. With the brand \<^verbatim>\<open>nike\<close> and the specific item
  \<^verbatim>\<open>timberland boots\<close> requested, the first stage (brand required) returns the Nike boots,
  which match one specific token; the second stage (brand dropped) also sees the Timberland
  boots, which match two, and keeps only those: the second pool does not contain the first.
\<close>

theorem stage_pools_not_monotone:
  "\<not> set (stagePool (stages ! 0) (roleBase [nikeBoots, timberlandBoots] Shoes bootsIntent
           (buildWeights bootsIntent)) bootsIntent (buildWeights bootsIntent))
      \<subseteq> set (stagePool (stages ! 1) (roleBase [nikeBoots, timberlandBoots] Shoes bootsIntent
           (buildWeights bootsIntent)) bootsIntent (buildWeights bootsIntent))"
  by (simp add: bootsBase bootsStages bootsAttrs)

text \<open>
  Claim C6, amended. Before the specific-item step the pool of stage \<open>k + 1\<close> contains
  the pool of stage \<open>k\<close> (same base, same gender filter), so the pool that stage \<open>k\<close> returns
  is contained in what stage \<open>k + 1\<close> admits before that step; and when no specific-item
  token is given, the returned pools themselves widen from each stage to the next.
\<close>

theorem stages_widen:
  "(\<forall>k<3. set (stageConstraints (stages ! k) base intent w)
             \<subseteq> set (stageConstraints (stages ! Suc k) base intent w)) \<and>
   (\<forall>k<3. set (stagePool (stages ! k) base intent w)
             \<subseteq> set (stageConstraints (stages ! Suc k) base intent w)) \<and>
   (specificTokens w = [] \<longrightarrow>
      (\<forall>k<3. set (stagePool (stages ! k) base intent w)
                \<subseteq> set (stagePool (stages ! Suc k) base intent w)))"
proof (intro conjI allI impI)
  fix k :: nat assume "k < 3"
  then show "set (stageConstraints (stages ! k) base intent w)
           \<subseteq> set (stageConstraints (stages ! Suc k) base intent w)"
    by (rule stageConstraints_widen)
next
  fix k :: nat assume k: "k < 3"
  have "set (stagePool (stages ! k) base intent w)
          \<subseteq> set (stageConstraints (stages ! k) base intent w)"
    unfolding stagePool_def by (rule preferSpecific_subset)
  with stageConstraints_widen [OF k]
  show "set (stagePool (stages ! k) base intent w)
          \<subseteq> set (stageConstraints (stages ! Suc k) base intent w)"
    by blast
next
  fix k :: nat assume "specificTokens w = []" and "k < 3"
  then show "set (stagePool (stages ! k) base intent w)
          \<subseteq> set (stagePool (stages ! Suc k) base intent w)"
    using stageConstraints_widen [of k base intent w]
    by (simp add: stagePool_def preferSpecific_no_tokens)
qed

theorem stages_widen_witness:
  "specificTokens (buildWeights (plainIntent [Top])) = [] \<and>
   stagePool (stages ! 2) [plainTee, footballTop] (plainIntent [Top])
     (buildWeights (plainIntent [Top])) = [plainTee] \<and>
   set (stagePool (stages ! 2) [plainTee, footballTop] (plainIntent [Top])
          (buildWeights (plainIntent [Top])))
     \<subseteq> set (stagePool (stages ! Suc 2) [plainTee, footballTop] (plainIntent [Top])
          (buildWeights (plainIntent [Top]))) \<and>
   set (stageConstraints (stages ! 0) [nikeBoots, timberlandBoots] bootsIntent
          (buildWeights bootsIntent))
     \<subseteq> set (stageConstraints (stages ! Suc 0) [nikeBoots, timberlandBoots] bootsIntent
          (buildWeights bootsIntent)) \<and>
   set (stagePool (stages ! 0) [nikeBoots, timberlandBoots] bootsIntent
          (buildWeights bootsIntent))
     \<subseteq> set (stageConstraints (stages ! Suc 0) [nikeBoots, timberlandBoots] bootsIntent
          (buildWeights bootsIntent))"
proof -
  let ?w = "buildWeights (plainIntent [Top])"
  have t: "specificTokens ?w = []" "brandTokens ?w = []" "teamTokens ?w = []"
    by (simp_all add: buildWeights_def plainIntent_def specificTokensOf_def Let_def)
  have a: "gender plainTee = Men" "gender footballTop = Men"
    "itemSport plainTee = NoSport" "itemSport footballTop = Football"
    "target_gender (plainIntent [Top]) = AnyGender" "sport_context (plainIntent [Top]) = NoSport"
    by (simp_all add: plainTee_def footballTop_def plainItem_def plainIntent_def itemSport_def)
  have p: "stagePool (stages ! 2) [plainTee, footballTop] (plainIntent [Top]) ?w = [plainTee]"
    by (simp add: stagePool_def stageConstraints_def preferSpecific_def stages_def t a
        genderCompatible_def Let_def)
  have k: "(2::nat) < 3" "(0::nat) < 3" by simp_all
  from stages_widen [of "[plainTee, footballTop]" "plainIntent [Top]" ?w] t(1) k(1)
  have 1: "set (stagePool (stages ! 2) [plainTee, footballTop] (plainIntent [Top]) ?w)
     \<subseteq> set (stagePool (stages ! Suc 2) [plainTee, footballTop] (plainIntent [Top]) ?w)"
    by blast
  from stages_widen [of "[nikeBoots, timberlandBoots]" bootsIntent "buildWeights bootsIntent"] k(2)
  have 2: "set (stageConstraints (stages ! 0) [nikeBoots, timberlandBoots] bootsIntent
          (buildWeights bootsIntent))
     \<subseteq> set (stageConstraints (stages ! Suc 0) [nikeBoots, timberlandBoots] bootsIntent
          (buildWeights bootsIntent))"
    and 3: "set (stagePool (stages ! 0) [nikeBoots, timberlandBoots] bootsIntent
          (buildWeights bootsIntent))
     \<subseteq> set (stageConstraints (stages ! Suc 0) [nikeBoots, timberlandBoots] bootsIntent
          (buildWeights bootsIntent))"
    by blast+
  from t(1) p 1 2 3 show ?thesis by blast
qed

text \<open>
  Claim C7 at a failing input. A football look is requested for women; the catalog holds two
  men's tops, a football jersey and a plain tee. The sport narrowing replaces \<^verbatim>\<open>base\<close> by
  the jersey alone, every stage yields the empty pool (no top is gender-compatible), and the
  fallback returns the narrowed \<^verbatim>\<open>base\<close>: the jersey, not the two tops of the catalog.
\<close>

theorem fallback_keeps_sport_narrowing:
  "map (\<lambda>stage. stagePool stage
          (roleBase [footballTop, plainTee] Top womenFootballIntent
             (buildWeights womenFootballIntent))
          womenFootballIntent (buildWeights womenFootballIntent)) stages = [[], [], [], []] \<and>
   filterCandidatesForRole [footballTop, plainTee] Top womenFootballIntent
     (buildWeights womenFootballIntent) = [footballTop] \<and>
   filter (\<lambda>it. category it = Top) [footballTop, plainTee] = [footballTop, plainTee]"
proof -
  let ?w = "buildWeights womenFootballIntent"
  have t: "specificTokens ?w = []" "brandTokens ?w = []" "teamTokens ?w = []"
    by (simp_all add: buildWeights_def womenFootballIntent_def plainIntent_def
        specificTokensOf_def Let_def)
  have a: "gender plainTee = Men" "gender footballTop = Men"
    "category plainTee = Top" "category footballTop = Top"
    "itemSport plainTee = NoSport" "itemSport footballTop = Football"
    "target_gender womenFootballIntent = Target Women"
    "sport_context womenFootballIntent = Football"
    by (simp_all add: plainTee_def footballTop_def plainItem_def plainIntent_def itemSport_def
        womenFootballIntent_def)
  have b: "roleBase [footballTop, plainTee] Top womenFootballIntent ?w = [footballTop]"
    by (simp add: roleBase_def isSportRelevantForContext_def hasTeamMatch_def t a)
  have s: "stagePool stage [footballTop] womenFootballIntent ?w = []" for stage
    by (simp add: stagePool_def stageConstraints_def preferSpecific_def t a
        genderCompatible_def Let_def)
  show ?thesis
    by (simp add: filterCandidatesForRole_def b s stages_def a)
qed

section \<open>Intent repair\<close>

text \<open>
  Claim C9, as stated, fails. The oracle's intent has no categories but names the form
  \<^verbatim>\<open>mono_only\<close>; the fallback intent has the form \<^verbatim>\<open>top_bottom_shoes\<close>. The merged intent
  takes the fallback's categories and keeps the oracle's form.
\<close>

theorem merge_keeps_oracle_form:
  "required_categories oracleNoCats = [] \<and>
   requested_form (mergeIntent (Some oracleNoCats) fallbackOutfit)
     \<noteq> requested_form fallbackOutfit"
  by (simp add: mergeIntent_def oracleNoCats_def fallbackOutfit_def plainIntent_def)

text \<open>
  Claim C9, amended. When the oracle's intent has no required categories, the merged intent
  has the fallback's required categories; its requested form is the fallback's when the
  oracle gave none, and the oracle's own form otherwise.
\<close>

theorem merge_repairs_categories:
  assumes "required_categories g = []"
  shows "required_categories (mergeIntent (Some g) h) = required_categories h \<and>
         requested_form (mergeIntent (Some g) h) =
           (if requested_form g = None then requested_form h else requested_form g)"
  using assms by (simp add: mergeIntent_def)

theorem merge_repairs_categories_witness:
  "required_categories oracleBare = [] \<and>
   required_categories (mergeIntent (Some oracleBare) fallbackOutfit) = [Top, Bottom, Shoes] \<and>
   requested_form (mergeIntent (Some oracleBare) fallbackOutfit) = Some Top_bottom_shoes"
proof -
  have h: "required_categories oracleBare = []"
    by (simp add: oracleBare_def plainIntent_def)
  from merge_repairs_categories [OF h, of fallbackOutfit] h show ?thesis
    by (simp add: oracleBare_def fallbackOutfit_def plainIntent_def)
qed

section \<open>Scoring factors\<close>

text \<open>
  Claim C10. The fit factor depends on which item is the top: an oversized top over a slim
  bottom scores 1.3, a slim top over an oversized bottom scores 0.5, and the two differ.
\<close>

theorem pairFit_directional:
  "pairFitCompatibility (t\<lparr> fit := Some Oversized \<rparr>) (b\<lparr> fit := Some Slim \<rparr>) = lit (13 / 10) \<and>
   pairFitCompatibility (t\<lparr> fit := Some Slim \<rparr>) (b\<lparr> fit := Some Oversized \<rparr>) = lit (5 / 10) \<and>
   pairFitCompatibility (t\<lparr> fit := Some Oversized \<rparr>) (b\<lparr> fit := Some Slim \<rparr>)
     \<noteq> pairFitCompatibility (t\<lparr> fit := Some Slim \<rparr>) (b\<lparr> fit := Some Oversized \<rparr>)"
  by (simp add: pairFitCompatibility_def itemFit_def lit_values)

text \<open>
  Claim C5 at a failing input. The option \<^verbatim>\<open>--epsilon 0.8\<close> goes through \<open>clamp01\<close>
  unchanged: the effective value is 0.8, above the bound 0.5 of the claim.
\<close>

theorem clamp01_above_half:
  "clamp01 (lit (8 / 10)) = lit (8 / 10) \<and> 1 / 2 < clamp01 (lit (8 / 10))"
  by (simp add: clamp01_def lit_values)

lemma plainWeights:
  "wColour (buildWeights (plainIntent cats)) =
     (\<lambda>c. 0)(Black := lit (3 / 10), White := lit (3 / 10), Grey := lit (3 / 10),
              Beige := lit (2 / 10))"
  by (simp add: buildWeights_def plainIntent_def Let_def fadd_def lit_def)
     (simp add: fl_eval)

text \<open>
  Claim C4 at a failing input. The intent has no colour hint; the item is red. The neutral
  baseline makes the total colour preference positive, red has weight 0, and the colour
  factor is the best weight 0 minus the penalty 0.5.
\<close>

theorem colour_penalty_without_hints:
  "colour_hints (plainIntent [Top]) = [] \<and>
   colourAlignment redTop (wColour (buildWeights (plainIntent [Top]))) = - (1 / 2)"
  by (simp add: plainWeights colourAlignment_def redTop_def plainItem_def ALLOWED_colours_def
      neutrals_def lit_values fadd_def fsub_def Let_def)
     (simp add: fl_eval plainIntent_def)

section \<open>Rounding is idempotent\<close>

text \<open>
  A value that \<open>fl\<close> returns is a binary64 value: rounding it again changes nothing. So
  adding zero to a computed score leaves the score as it is.
\<close>

lemma bitlen_ge_one: "0 < n \<Longrightarrow> 1 \<le> bitlen n"
  by (simp add: bitlen_alt_def)

lemma expo_ge_one:
  fixes a :: real
  assumes "1 \<le> a"
  shows "2 powi (bitlen \<lfloor>a\<rfloor> - 1) \<le> a \<and> a < 2 powi (bitlen \<lfloor>a\<rfloor>)"
proof -
  let ?n = "\<lfloor>a\<rfloor>" and ?b = "bitlen \<lfloor>a\<rfloor>"
  from assms have n: "0 < ?n" by simp
  then have b: "1 \<le> ?b" by (rule bitlen_ge_one)
  from bitlen_bounds [OF n] have lo: "2 ^ nat (?b - 1) \<le> ?n" and hi: "?n < 2 ^ nat ?b"
    by simp_all
  have "(2::real) powi (?b - 1) = 2 ^ nat (?b - 1)"
    using b by (simp add: power_int_nonneg_exp)
  also have "\<dots> = of_int (2 ^ nat (?b - 1))" by simp
  also have "\<dots> \<le> of_int ?n" using lo by (simp only: of_int_le_iff)
  also have "\<dots> \<le> a" by simp
  finally have 1: "2 powi (?b - 1) \<le> a" .
  from hi have "?n + 1 \<le> 2 ^ nat ?b" by simp
  then have "of_int (?n + 1) \<le> (of_int (2 ^ nat ?b) :: real)" by (simp only: of_int_le_iff)
  then have "of_int ?n + 1 \<le> (2::real) ^ nat ?b" by simp
  moreover have "a < of_int ?n + 1" by linarith
  moreover have "(2::real) powi ?b = 2 ^ nat ?b"
    using b by (simp add: power_int_nonneg_exp)
  ultimately have 2: "a < 2 powi ?b" by linarith
  from 1 2 show ?thesis by blast
qed

lemma expo_bounds:
  fixes a :: real
  assumes "0 < a"
  shows "2 powi expo a \<le> a \<and> a < 2 powi (expo a + 1)"
proof (cases "1 \<le> a")
  case True
  with expo_ge_one [OF True] show ?thesis by (simp add: expo_def)
next
  case False
  let ?y = "1 / a" and ?c = "1 - bitlen \<lfloor>1 / a\<rfloor>"
  from assms False have y: "1 \<le> ?y" by simp
  from expo_ge_one [OF y]
  have lo: "2 powi (bitlen \<lfloor>?y\<rfloor> - 1) \<le> ?y" and hi: "?y < 2 powi (bitlen \<lfloor>?y\<rfloor>)"
    by simp_all
  have inv1: "(2::real) powi ?c = 1 / 2 powi (bitlen \<lfloor>?y\<rfloor> - 1)"
    using power_int_minus_divide [of "2::real" "bitlen \<lfloor>?y\<rfloor> - 1"] by simp
  have inv2: "(2::real) powi (?c - 1) = 1 / 2 powi (bitlen \<lfloor>?y\<rfloor>)"
    using power_int_minus_divide [of "2::real" "bitlen \<lfloor>?y\<rfloor>"] by simp
  have up: "a \<le> 2 powi ?c"
  proof -
    have "0 < (2::real) powi (bitlen \<lfloor>?y\<rfloor> - 1)" by simp
    with lo assms have "a * 2 powi (bitlen \<lfloor>?y\<rfloor> - 1) \<le> 1"
      by (simp add: field_simps)
    then show ?thesis unfolding inv1 using \<open>0 < (2::real) powi (bitlen \<lfloor>?y\<rfloor> - 1)\<close>
      by (simp add: field_simps)
  qed
  have low: "2 powi (?c - 1) < a"
  proof -
    have p: "0 < (2::real) powi (bitlen \<lfloor>?y\<rfloor>)" by simp
    with hi assms have "1 < a * 2 powi (bitlen \<lfloor>?y\<rfloor>)"
      by (simp add: field_simps)
    then show ?thesis unfolding inv2 using p by (simp add: field_simps)
  qed
  show ?thesis
  proof (cases "2 powi ?c \<le> a")
    case True
    with up have eq: "a = 2 powi ?c" by simp
    have "(2::real) powi ?c < 2 powi (?c + 1)"
      by (rule power_int_strict_increasing) simp_all
    with True eq False show ?thesis by (simp add: expo_def Let_def)
  next
    case c: False
    then have "a < 2 powi ?c" by simp
    with low c False show ?thesis by (simp add: expo_def Let_def)
  qed
qed

lemma expo_unique:
  fixes a :: real
  assumes "0 < a" "2 powi e \<le> a" "a < 2 powi (e + 1)"
  shows "expo a = e"
proof -
  from expo_bounds [OF assms(1)]
  have lo: "2 powi expo a \<le> a" and hi: "a < 2 powi (expo a + 1)" by simp_all
  have "(2::real) powi expo a < 2 powi (e + 1)" using lo assms(3) by linarith
  then have 1: "expo a < e + 1"
    by (metis linorder_not_less one_less_numeral_iff power_int_increasing semiring_norm(76) less_eq_real_def)
  have "(2::real) powi e < 2 powi (expo a + 1)" using hi assms(2) by linarith
  then have 2: "e < expo a + 1"
    by (metis linorder_not_less one_less_numeral_iff power_int_increasing semiring_norm(76) less_eq_real_def)
  from 1 2 show ?thesis by simp
qed

lemma round_even_of_int [simp]: "round_even (of_int k) = k"
  by (simp add: round_even_def)

lemma round_even_bounds: "\<lfloor>m\<rfloor> \<le> round_even m \<and> round_even m \<le> \<lfloor>m\<rfloor> + 1"
  by (simp add: round_even_def Let_def)

lemma pow2_split:
  "(2::real) powi e = 2 ^ 52 * 2 powi (e - 52)" "(2::real) powi (e + 1) = 2 ^ 53 * 2 powi (e - 52)"
proof -
  have "(2::real) powi e = 2 powi (52 + (e - 52))" by simp
  also have "\<dots> = 2 powi 52 * 2 powi (e - 52)" by (subst power_int_add) simp_all
  finally show "(2::real) powi e = 2 ^ 52 * 2 powi (e - 52)" by simp
  have "(2::real) powi (e + 1) = 2 powi (53 + (e - 52))"
    by (rule arg_cong [where f = "power_int 2"]) simp
  also have "\<dots> = 2 powi 53 * 2 powi (e - 52)" by (subst power_int_add) simp_all
  finally show "(2::real) powi (e + 1) = 2 ^ 53 * 2 powi (e - 52)" by simp
qed

lemma fl_mantissa:
  fixes a :: real
  assumes "0 < a"
  defines "u \<equiv> 2 powi (expo a - 52)"
  shows "2 ^ 52 \<le> round_even (a / u) \<and> round_even (a / u) \<le> 2 ^ 53"
proof -
  have u: "0 < u" by (simp add: u_def)
  have s1: "(2::real) powi expo a = 2 ^ 52 * u" unfolding u_def by (rule pow2_split(1))
  have s2: "(2::real) powi (expo a + 1) = 2 ^ 53 * u" unfolding u_def by (rule pow2_split(2))
  from expo_bounds [OF assms(1)] have "2 powi expo a \<le> a" "a < 2 powi (expo a + 1)"
    by simp_all
  then have "2 ^ 52 * u \<le> a" "a < 2 ^ 53 * u"
    by (simp_all only: s1 s2)
  with u have m: "2 ^ 52 \<le> a / u" "a / u < 2 ^ 53"
    by (simp_all add: field_simps)
  have "(of_int (2 ^ 52) :: real) \<le> a / u" using m(1) by simp
  then have lo: "2 ^ 52 \<le> \<lfloor>a / u\<rfloor>" by (simp only: le_floor_iff)
  have "a / u < of_int (2 ^ 53)" using m(2) by simp
  then have hi: "\<lfloor>a / u\<rfloor> < 2 ^ 53" by (simp only: floor_less_iff)
  from round_even_bounds [of "a / u"] lo hi show ?thesis by linarith
qed

lemma fl_idem: "fl (fl x) = fl x"
proof (cases "x = 0")
  case True
  then show ?thesis by (simp add: fl_def)
next
  case False
  define a where "a = \<bar>x\<bar>"
  define e where "e = expo a"
  define u :: real where "u = 2 powi (e - 52)"
  define r where "r = round_even (a / u)"
  have a: "0 < a" using False by (simp add: a_def)
  have u: "0 < u" by (simp add: u_def)
  from fl_mantissa [OF a] have r: "2 ^ 52 \<le> r" "r \<le> 2 ^ 53"
    by (simp_all add: r_def u_def e_def)
  then have r0: "0 < (of_int r :: real)" by simp
  have y: "fl x = sgn x * of_int r * u"
    using False by (simp add: fl_def Let_def a_def e_def u_def r_def)
  have sx: "\<bar>sgn x\<bar> = 1" using False by (simp add: abs_sgn_eq)
  have ay: "\<bar>fl x\<bar> = of_int r * u"
    using r0 u sx by (simp add: y abs_mult)
  have sy: "sgn (fl x) = sgn x"
    using r0 u by (simp add: y sgn_mult)
  have y0: "fl x \<noteq> 0" using ay r0 u by auto
  show ?thesis
  proof (cases "r < 2 ^ 53")
    case True
    have "(of_int (2 ^ 52) :: real) \<le> of_int r" using r(1) by (simp only: of_int_le_iff)
    then have 1: "2 powi e \<le> of_int r * u" using u by (simp add: pow2_split(1) [of e] u_def)
    have "(of_int r :: real) < of_int (2 ^ 53)" using True by (simp only: of_int_less_iff)
    then have 2: "of_int r * u < 2 powi (e + 1)" using u by (simp add: pow2_split(2) [of e] u_def)
    have ex: "expo (of_int r * u) = e"
      by (rule expo_unique [OF _ 1 2]) (rule mult_pos_pos [OF r0 u])
    have "fl (fl x) = sgn x * of_int (round_even (of_int r * u / u)) * u"
      using y0 by (simp add: fl_def [of "fl x"] Let_def ay sy ex u_def [symmetric])
    also have "of_int r * u / u = (of_int r :: real)" using u by simp
    finally show ?thesis by (simp add: y)
  next
    case c: False
    with r have req: "r = 2 ^ 53" by simp
    have 1: "2 powi (e + 1) \<le> of_int r * u" by (simp add: req pow2_split(2) [of e] u_def)
    have "(2::real) powi (e + 1) < 2 powi (e + 1 + 1)"
      by (rule power_int_strict_increasing) simp_all
    then have 2: "of_int r * u < 2 powi (e + 1 + 1)"
      by (simp add: req pow2_split(2) [of e] u_def)
    have ex: "expo (of_int r * u) = e + 1"
      by (rule expo_unique [OF _ 1 2]) (rule mult_pos_pos [OF r0 u])
    have u2: "(2::real) powi (e - 51) = 2 * u"
    proof -
      have "(2::real) powi (e - 51) = 2 powi (1 + (e - 52))"
        by (rule arg_cong [where f = "power_int 2"]) simp
      also have "\<dots> = 2 powi 1 * 2 powi (e - 52)" by (subst power_int_add) simp_all
      finally show ?thesis by (simp add: u_def)
    qed
    have q: "of_int r * u / (2 * u) = (of_int (2 ^ 52) :: real)"
      using u by (simp add: req)
    have "fl (fl x) = sgn x * of_int (round_even (of_int r * u / (2 * u))) * (2 * u)"
      using y0 by (simp add: fl_def [of "fl x"] Let_def ay sy ex u2)
    also have "\<dots> = sgn x * of_int (2 ^ 52) * (2 * u)"
      by (simp only: q round_even_of_int)
    also have "\<dots> = fl x" by (simp add: y req)
    finally show ?thesis .
  qed
qed

section \<open>The sampling loop\<close>

lemma removeAt_length: "idx < length xs \<Longrightarrow> length (removeAt idx xs) = length xs - 1"
  by (simp add: removeAt_def)

lemma sampleLoop_stop:
  "\<not> (length chosen < poolSize \<and> topBand \<noteq> []) \<Longrightarrow>
   sampleLoop rnd pos eps poolSize topBand chosen usedIds = chosen"
  by (subst sampleLoop.simps) auto

lemma sampleLoop_invariant:
  assumes "distinct (map (\<lambda>c. signature (outfit c)) chosen)"
    and "(\<lambda>c. signature (outfit c)) ` set chosen \<subseteq> usedIds"
    and "length chosen \<le> poolSize"
  shows "distinct (map (\<lambda>c. signature (outfit c)) (sampleLoop rnd pos eps poolSize topBand chosen usedIds))
    \<and> length (sampleLoop rnd pos eps poolSize topBand chosen usedIds) \<le> poolSize
    \<and> length (sampleLoop rnd pos eps poolSize topBand chosen usedIds)
        \<le> length chosen + length topBand"
  using assms
proof (induction rnd pos eps poolSize topBand chosen usedIds rule: sampleLoop.induct)
  case (1 rnd pos eps poolSize topBand chosen usedIds)
  show ?case
  proof (cases "length chosen < poolSize \<and> topBand \<noteq> []")
    case False
    then show ?thesis
      using "1.prems" by (simp add: sampleLoop_stop)
  next
    case True
    define idx where "idx = fst (drawPick rnd pos eps topBand)"
    define pick where "pick = topBand ! idx"
    define sig where "sig = signature (outfit pick)"
    define chosen' where "chosen' = (if sig \<notin> usedIds then chosen @ [pick] else chosen)"
    define used' where "used' = (if sig \<notin> usedIds then insert sig usedIds else usedIds)"
    have idx: "idx < length topBand"
      using True by (simp add: idx_def drawPick_less)
    have step: "sampleLoop rnd pos eps poolSize topBand chosen usedIds =
        sampleLoop rnd (snd (drawPick rnd pos eps topBand)) eps poolSize
          (removeAt idx topBand) chosen' used'"
      using True
      by (subst sampleLoop.simps) (simp add: Let_def idx_def pick_def sig_def chosen'_def used'_def)
    have d: "distinct (map (\<lambda>c. signature (outfit c)) chosen')"
      using "1.prems"(1,2) by (auto simp: chosen'_def sig_def)
    have s: "(\<lambda>c. signature (outfit c)) ` set chosen' \<subseteq> used'"
      using "1.prems"(2) by (auto simp: chosen'_def used'_def sig_def)
    have l: "length chosen' \<le> poolSize"
      using True by (simp add: chosen'_def)
    have l': "length chosen' \<le> length chosen + 1"
      by (simp add: chosen'_def)
    from "1.IH" [OF True idx_def pick_def sig_def, folded chosen'_def used'_def, OF d s l]
    have "distinct (map (\<lambda>c. signature (outfit c))
            (sampleLoop rnd (snd (drawPick rnd pos eps topBand)) eps poolSize
               (removeAt idx topBand) chosen' used'))
      \<and> length (sampleLoop rnd (snd (drawPick rnd pos eps topBand)) eps poolSize
               (removeAt idx topBand) chosen' used') \<le> poolSize
      \<and> length (sampleLoop rnd (snd (drawPick rnd pos eps topBand)) eps poolSize
               (removeAt idx topBand) chosen' used')
          \<le> length chosen' + length (removeAt idx topBand)" .
    moreover have "length chosen' + length (removeAt idx topBand)
        \<le> length chosen + length topBand"
      using idx l' by (simp add: removeAt_length)
    ultimately show ?thesis
      unfolding step by linarith
  qed
qed



section \<open>A run without jitter and without exploration\<close>

lemma fl_zero [simp]: "fl 0 = 0"
  by (simp add: fl_def)

lemma fadd_repr [simp]: "fl (fadd a b) = fadd a b"
  by (simp add: fadd_def fl_idem)










lemma clamp01_zero [simp]: "clamp01 0 = 0"
  by (simp add: clamp01_def)




text \<open>
  Claim C2. Whatever the scored candidates, the target count, the diversity factor and the
  random stream, the list the sampling loop returns from the top band has no two entries
  with the same signature, is no longer than the target count and no longer than the band.
\<close>

theorem sample_distinct_and_bounded:
  "distinct (map (\<lambda>c. signature (outfit c))
      (sampleLoop rnd pos eps poolSize (topBandOf poolSize outfits) [] {})) \<and>
   length (sampleLoop rnd pos eps poolSize (topBandOf poolSize outfits) [] {}) \<le> poolSize \<and>
   length (sampleLoop rnd pos eps poolSize (topBandOf poolSize outfits) [] {})
     \<le> length (topBandOf poolSize outfits)"
  using sampleLoop_invariant [of "[]" "{}" poolSize rnd pos eps "topBandOf poolSize outfits"]
  by simp







section \<open>Symmetry of the colour-pair term\<close>

lemma pairColorStep_sym: "pairColorStep ca cb s = pairColorStep cb ca s"
  by (auto simp: pairColorStep_def Let_def)

lemma pairColor_single_left:
  assumes "colours a = [x]"
  shows "pairColorCompatibility a b = pairColorCompatibility b a"
proof (cases "colours b = []")
  case True
  then show ?thesis by (simp add: pairColorCompatibility_def)
next
  case False
  have "(\<lambda>ca score. pairColorStep ca x score) = (\<lambda>cb score. pairColorStep x cb score)"
    by (intro ext) (rule pairColorStep_sym)
  with False show ?thesis
    by (simp add: pairColorCompatibility_def assms fmul_def mult.commute)
qed

text \<open>
  Claim C8, as stated, fails on binary64 numbers. For the colours black, red against red,
  blue the four terms are 0.4, 0.4, 1, 0 in one order of the arguments and 0.4, 1, 0.4, 0 in
  the other: \<open>(0.4 + 0.4) + 1\<close> rounds to 1.8 and \<open>(0.4 + 1) + 0.4\<close> to 1.7999999999999998, so
  the two averages are 0.45 and 0.44999999999999996.
\<close>

theorem pairColor_not_symmetric:
  "pairColorCompatibility blackRedTop redBlueBottom = 8106479329266893 / 18014398509481984 \<and>
   pairColorCompatibility redBlueBottom blackRedTop = 2026619832316723 / 4503599627370496 \<and>
   pairColorCompatibility blackRedTop redBlueBottom
     \<noteq> pairColorCompatibility redBlueBottom blackRedTop"
proof -
  have 1: "pairColorCompatibility blackRedTop redBlueBottom
      = 8106479329266893 / 18014398509481984"
    by (simp add: pairColorCompatibility_def pairColorStep_def neutrals_def blackRedTop_def
        redBlueBottom_def plainItem_def fl_eval)
  have 2: "pairColorCompatibility redBlueBottom blackRedTop
      = 2026619832316723 / 4503599627370496"
    by (simp add: pairColorCompatibility_def pairColorStep_def neutrals_def blackRedTop_def
        redBlueBottom_def plainItem_def fl_eval)
  show ?thesis unfolding 1 2 by simp
qed

text \<open>
  Claim C8, amended. The colour-pair term is symmetric whenever one of the two items has at
  most one colour: the same terms are then added in the same order. (With two or more
  colours on both sides the two calls add the same terms in different orders, and the
  rounded sums can differ in the last place.)
\<close>

theorem pairColor_symmetric_one_colour:
  assumes "length (colours a) \<le> 1 \<or> length (colours b) \<le> 1"
  shows "pairColorCompatibility a b = pairColorCompatibility b a"
proof -
  consider "colours a = []" | "colours b = []" | x where "colours a = [x]"
    | y where "colours b = [y]"
    using assms by (cases "colours a"; cases "colours b") auto
  then show ?thesis
  proof cases
    case 1
    then show ?thesis by (simp add: pairColorCompatibility_def)
  next
    case 2
    then show ?thesis by (simp add: pairColorCompatibility_def)
  next
    case 3
    then show ?thesis by (rule pairColor_single_left)
  next
    case 4
    then show ?thesis by (rule pairColor_single_left [symmetric])
  qed
qed

theorem pairColor_symmetric_one_colour_witness:
  "(length (colours plainTee) \<le> 1 \<or> length (colours redBlueBottom) \<le> 1) \<and>
   pairColorCompatibility plainTee redBlueBottom = pairColorCompatibility redBlueBottom plainTee"
proof -
  have h: "length (colours plainTee) \<le> 1 \<or> length (colours redBlueBottom) \<le> 1"
    by (simp add: plainTee_def plainItem_def)
  from pairColor_symmetric_one_colour [OF h] h show ?thesis by (rule conjI [rotated])
qed

section \<open>Catalogs with unique identifiers\<close>






























section \<open>The output without jitter and without exploration\<close>




end
